theory Spec2Isabelle
  imports Main "HOL-Library.Word"
begin

section \<open>Capture Checker: data model\<close>

text \<open>
  The embedding follows \<^verbatim>\<open>src/capture-checker.cpp\<close>. Pointers are addresses into
  explicit stores (\<open>None\<close> is \<^verbatim>\<open>nullptr\<close>); reading through a null pointer or through
  an address that holds no object is a fault of the model, where the C++ program has
  undefined behaviour. The 64-bit timestamps are \<open>64 word\<close>, so that the unsigned
  subtractions of the watchdog wrap around as they do in the program.
\<close>

type_synonym u64 = "64 word"
type_synonym u16 = "16 word"
type_synonym addr = nat
type_synonym ptr = "addr option"

text \<open>
  The host's sample types are declared outside the repository; the code reads only their
  \<^verbatim>\<open>timestamp\<close> member. The payload stands for every other member.
\<close>

record obs_source_frame =
  frame_timestamp :: u64
  frame_payload :: "8 word list"

record obs_audio_data =
  audio_timestamp :: u64
  audio_payload :: "8 word list"

text \<open>What \<^verbatim>\<open>obs_data_get_bool\<close> and \<^verbatim>\<open>obs_data_get_int\<close> return for the four settings.\<close>

record obs_data =
  setting_video_ts_check :: bool
  setting_audio_ts_check :: bool
  setting_source_enabled_check :: bool
  setting_source_enabled_time :: int

text \<open>
  \<^verbatim>\<open>struct capture_checker_data\<close>. The member \<^verbatim>\<open>context\<close> is named \<open>context_src\<close> here.
  The member \<open>thread\<close> records whether the \<^verbatim>\<open>std::thread\<close> object owns a thread of
  execution (is joinable).
\<close>

record capture_checker_data =
  context_src :: ptr
  source :: ptr
  settings :: ptr
  current_frame :: ptr
  current_audio :: ptr
  video_ts_check :: bool
  audio_ts_check :: bool
  source_enabled_check :: bool
  source_enabled_time :: u16
  thread :: bool
  thread_active :: bool
  signal_handler :: ptr

text \<open>
  The host functions the code calls, taken as parameters: \<^verbatim>\<open>obs_source_enabled\<close>,
  \<^verbatim>\<open>obs_source_active\<close> and \<^verbatim>\<open>obs_filter_get_parent\<close>.
\<close>

record obs_host =
  obs_source_enabled :: "ptr \<Rightarrow> bool"
  obs_source_active :: "ptr \<Rightarrow> bool"
  obs_filter_get_parent :: "ptr \<Rightarrow> ptr"

text \<open>
  The state the code runs against: the instance, the stores of video frames and audio
  samples, the host, and the number of threads of execution that run \<^verbatim>\<open>thread_loop\<close>
  on the instance.
\<close>

record world =
  inst :: capture_checker_data
  frames :: "addr \<rightharpoonup> obs_source_frame"
  audios :: "addr \<rightharpoonup> obs_audio_data"
  host :: obs_host
  tasks :: nat

datatype fault = NullDeref | Terminate | SystemError

definition deref_frame :: "world \<Rightarrow> ptr \<Rightarrow> obs_source_frame option" where
  "deref_frame w p = (case p of None \<Rightarrow> None | Some a \<Rightarrow> frames w a)"

definition deref_audio :: "world \<Rightarrow> ptr \<Rightarrow> obs_audio_data option" where
  "deref_audio w p = (case p of None \<Rightarrow> None | Some a \<Rightarrow> audios w a)"

section \<open>Settings and creation\<close>

definition filter_update :: "capture_checker_data \<Rightarrow> obs_data \<Rightarrow> capture_checker_data" where
  "filter_update f s =
     (let new_video_ts_check = setting_video_ts_check s;
          new_audio_ts_check = setting_audio_ts_check s;
          new_source_enabled_check = setting_source_enabled_check s;
          new_source_enabled_time = (word_of_int (setting_source_enabled_time s) :: u16);
          f1 = (if new_video_ts_check \<noteq> video_ts_check f
                then f\<lparr>video_ts_check := new_video_ts_check\<rparr> else f);
          f2 = (if new_audio_ts_check \<noteq> audio_ts_check f1
                then f1\<lparr>audio_ts_check := new_audio_ts_check\<rparr> else f1);
          f3 = (if new_source_enabled_check \<noteq> source_enabled_check f2
                then f2\<lparr>source_enabled_check := new_source_enabled_check\<rparr> else f2)
      in if new_source_enabled_time \<noteq> source_enabled_time f3
         then f3\<lparr>source_enabled_time := new_source_enabled_time\<rparr> else f3)"

text \<open>The zeroed block that \<^verbatim>\<open>bzalloc\<close> returns.\<close>

definition bzalloc :: capture_checker_data where
  "bzalloc = \<lparr>context_src = None, source = None, settings = None, current_frame = None,
     current_audio = None, video_ts_check = False, audio_ts_check = False,
     source_enabled_check = False, source_enabled_time = 0, thread = False,
     thread_active = False, signal_handler = None\<rparr>"

text \<open>
  \<^verbatim>\<open>filter_create\<close>: \<open>sp\<close> is the settings pointer, \<open>s\<close> the values behind it, \<open>ctx\<close> the
  context and \<open>sh\<close> the signal handler the host returns for it.
\<close>

definition filter_create :: "ptr \<Rightarrow> obs_data \<Rightarrow> ptr \<Rightarrow> ptr \<Rightarrow> capture_checker_data" where
  "filter_create sp s ctx sh =
     (let f0 = bzalloc\<lparr>context_src := ctx\<rparr>;
          f1 = filter_update f0 s;
          f2 = f1\<lparr>source := None\<rparr>;
          f3 = f2\<lparr>settings := sp\<rparr>;
          f4 = f3\<lparr>current_frame := None\<rparr>
      in f4\<lparr>signal_handler := sh\<rparr>)"

text \<open>The defaults of \<^verbatim>\<open>filter_defaults\<close>.\<close>

definition filter_defaults :: obs_data where
  "filter_defaults = \<lparr>setting_video_ts_check = True, setting_audio_ts_check = True,
     setting_source_enabled_check = True, setting_source_enabled_time = 5\<rparr>"

section \<open>Lifecycle\<close>

text \<open>
  \<^verbatim>\<open>start_thread\<close>. Move-assigning to a \<^verbatim>\<open>std::thread\<close> that is joinable calls
  \<^verbatim>\<open>std::terminate\<close>; otherwise one more thread of execution runs the loop.
\<close>

definition start_thread :: "world \<Rightarrow> fault + world" where
  "start_thread w =
     (let f = inst w in
      if thread_active f \<or> \<not> obs_source_enabled (host w) (context_src f) then Inr w
      else
        (let f1 = f\<lparr>thread_active := True\<rparr> in
         if thread f1 then Inl Terminate
         else Inr (w\<lparr>inst := f1\<lparr>thread := True\<rparr>, tasks := Suc (tasks w)\<rparr>)))"

text \<open>
  \<^verbatim>\<open>end_thread\<close>. \<^verbatim>\<open>join\<close> on a thread that is not joinable throws
  \<^verbatim>\<open>std::system_error\<close>; otherwise it returns when the thread of execution has
  finished, which leaves one task fewer.
\<close>

definition end_thread :: "world \<Rightarrow> fault + world" where
  "end_thread w =
     (let f = inst w in
      if \<not> thread_active f then Inr w
      else
        (let f1 = f\<lparr>thread_active := False\<rparr> in
         if \<not> thread f1 then Inl SystemError
         else Inr (w\<lparr>inst := f1\<lparr>thread := False, current_frame := None\<rparr>,
                     tasks := tasks w - 1\<rparr>)))"

definition filter_enabled :: "world \<Rightarrow> bool \<Rightarrow> fault + world" where
  "filter_enabled w enabled = (if enabled then start_thread w else end_thread w)"

text \<open>
  A sequence of calls of \<^verbatim>\<open>start_thread\<close> and \<^verbatim>\<open>end_thread\<close> on one instance. Each
  call comes with the state of the host at that moment, which may have changed since the
  previous call. A fault ends the sequence.
\<close>

datatype lifecycle_op = Start | Stop

fun apply_lifecycle :: "world \<Rightarrow> obs_host \<times> lifecycle_op \<Rightarrow> fault + world" where
  "apply_lifecycle w (h, Start) = start_thread (w\<lparr>host := h\<rparr>)"
| "apply_lifecycle w (h, Stop) = end_thread (w\<lparr>host := h\<rparr>)"

fun run_lifecycle :: "world \<Rightarrow> (obs_host \<times> lifecycle_op) list \<Rightarrow> fault + world" where
  "run_lifecycle w [] = Inr w"
| "run_lifecycle w (x # xs) =
     (case apply_lifecycle w x of Inl e \<Rightarrow> Inl e | Inr w' \<Rightarrow> run_lifecycle w' xs)"

text \<open>
  The \<^verbatim>\<open>std::thread\<close> member owns a thread of execution exactly when
  \<^verbatim>\<open>thread_active\<close> is set, and then exactly one task runs the loop.
\<close>

definition lifecycle_inv :: "world \<Rightarrow> bool" where
  "lifecycle_inv w \<longleftrightarrow>
     thread (inst w) = thread_active (inst w)
     \<and> tasks w = (if thread_active (inst w) then 1 else 0)"

section \<open>Producer callbacks\<close>

definition filter_video :: "world \<Rightarrow> ptr \<Rightarrow> fault + (ptr \<times> world)" where
  "filter_video w frame =
     (let w1 = (if source (inst w) = None
                then w\<lparr>inst := (inst w)\<lparr>source :=
                       obs_filter_get_parent (host w) (context_src (inst w))\<rparr>\<rparr>
                else w)
      in case (if \<not> thread_active (inst w1)
                  \<and> obs_source_enabled (host w1) (context_src (inst w1))
                  \<and> obs_source_active (host w1) (source (inst w1))
               then start_thread w1 else Inr w1) of
           Inl e \<Rightarrow> Inl e
         | Inr w2 \<Rightarrow>
             (if current_frame (inst w2) = None
              then Inr (frame, w2\<lparr>inst := (inst w2)\<lparr>current_frame := frame\<rparr>\<rparr>)
              else
                (case deref_frame w2 frame of
                   None \<Rightarrow> Inl NullDeref
                 | Some fr \<Rightarrow>
                     (case deref_frame w2 (current_frame (inst w2)) of
                        None \<Rightarrow> Inl NullDeref
                      | Some cur \<Rightarrow>
                          if frame_timestamp fr \<noteq> frame_timestamp cur
                          then Inr (frame, w2\<lparr>inst := (inst w2)\<lparr>current_frame := frame\<rparr>\<rparr>)
                          else Inr (frame, w2)))))"

definition filter_audio :: "world \<Rightarrow> ptr \<Rightarrow> ptr \<times> world" where
  "filter_audio w audio = (audio, w\<lparr>inst := (inst w)\<lparr>current_audio := audio\<rparr>\<rparr>)"

section \<open>The watchdog loop\<close>

text \<open>
  Each call of \<^verbatim>\<open>play_alert_sound\<close> in the loop follows a log line that names the check;
  the alert kinds stand for the three call sites.
\<close>

datatype alert = StalledVideo | StalledAudio | HiddenTooLong

text \<open>The local variables of \<^verbatim>\<open>thread_loop\<close>, with their initial values.\<close>

record loop_locals =
  frame_ts :: u64
  audio_ts :: u64
  prev_visible :: bool
  not_visible_since_ts :: u64

definition loop_init :: loop_locals where
  "loop_init = \<lparr>frame_ts = 0, audio_ts = 0, prev_visible = False, not_visible_since_ts = 0\<rparr>"

text \<open>
  One iteration of the loop body, given the state the iteration observes. \<open>Skipped\<close> is
  the early \<^verbatim>\<open>continue\<close>; \<open>Evaluated\<close> carries the alerts played, in order, and the
  locals at the end of the iteration; \<open>Faulted\<close> carries the alerts played before a read
  through an invalid pointer. Every iteration that does not fault ends with the sleep of
  1000 ms. The conjunctions are evaluated left to right and stop at the first false
  conjunct, so a pointer is read only where the program reads it.
\<close>

datatype tick_result = Skipped | Evaluated "alert list" loop_locals | Faulted "alert list"

definition video_check :: "world \<Rightarrow> loop_locals \<Rightarrow> bool option" where
  "video_check w l =
     (if video_ts_check (inst w)
      then map_option (\<lambda>fr. frame_ts l - frame_timestamp fr = 0)
             (deref_frame w (current_frame (inst w)))
      else Some False)"

definition audio_check :: "world \<Rightarrow> loop_locals \<Rightarrow> bool option" where
  "audio_check w l =
     (if audio_ts_check (inst w)
      then map_option (\<lambda>au. audio_ts l - audio_timestamp au = 0)
             (deref_audio w (current_audio (inst w)))
      else Some False)"

definition visible_update :: "world \<Rightarrow> loop_locals \<Rightarrow> bool \<Rightarrow> u64 option" where
  "visible_update w l current_visible =
     (if \<not> current_visible \<and> prev_visible l
      then map_option frame_timestamp (deref_frame w (current_frame (inst w)))
      else Some (not_visible_since_ts l))"

definition source_check :: "world \<Rightarrow> u64 \<Rightarrow> bool \<Rightarrow> bool option" where
  "source_check w since current_visible =
     (if source_enabled_check (inst w) \<and> \<not> current_visible
      then map_option
             (\<lambda>fr. 1000000000 * ucast (source_enabled_time (inst w)) < frame_timestamp fr - since)
             (deref_frame w (current_frame (inst w)))
      else Some False)"

definition thread_tick :: "world \<Rightarrow> loop_locals \<Rightarrow> tick_result" where
  "thread_tick w l =
     (if current_frame (inst w) = None then Skipped
      else
        (case video_check w l of
           None \<Rightarrow> Faulted []
         | Some v \<Rightarrow>
             (let a1 = (if v then [StalledVideo] else []) in
              case audio_check w l of
                None \<Rightarrow> Faulted a1
              | Some a \<Rightarrow>
                  (let a2 = a1 @ (if a then [StalledAudio] else []);
                       current_visible = obs_source_active (host w) (source (inst w)) in
                   case visible_update w l current_visible of
                     None \<Rightarrow> Faulted a2
                   | Some since \<Rightarrow>
                       (case source_check w since current_visible of
                          None \<Rightarrow> Faulted a2
                        | Some h \<Rightarrow>
                            (let a3 = a2 @ (if h then [HiddenTooLong] else []) in
                             case deref_frame w (current_frame (inst w)) of
                               None \<Rightarrow> Faulted a3
                             | Some fr \<Rightarrow>
                                 (case deref_audio w (current_audio (inst w)) of
                                    None \<Rightarrow> Faulted a3
                                  | Some au \<Rightarrow>
                                      Evaluated a3
                                        \<lparr>frame_ts = frame_timestamp fr,
                                         audio_ts = audio_timestamp au,
                                         prev_visible = current_visible,
                                         not_visible_since_ts = since\<rparr>)))))))"

fun alerts_of :: "tick_result \<Rightarrow> alert list" where
  "alerts_of Skipped = []"
| "alerts_of (Evaluated a l) = a"
| "alerts_of (Faulted a) = a"

text \<open>
  The loop. The instance is written by other threads while the loop sleeps, so the loop
  is run on the list of states that its successive iterations observe. It returns the
  result of every iteration it ran and how it ended: it left the loop because
  \<^verbatim>\<open>thread_active\<close> was false at the top of an iteration, it faulted, or it is still
  running, with these locals, when the observed states end.
\<close>

datatype loop_end = Exited | Crashed | StillRunning loop_locals

fun thread_loop_from :: "loop_locals \<Rightarrow> world list \<Rightarrow> tick_result list \<times> loop_end" where
  "thread_loop_from l [] = ([], StillRunning l)"
| "thread_loop_from l (w # ws) =
     (if \<not> thread_active (inst w) then ([], Exited)
      else
        (case thread_tick w l of
           Skipped \<Rightarrow> (case thread_loop_from l ws of (tr, e) \<Rightarrow> (Skipped # tr, e))
         | Evaluated a l' \<Rightarrow>
             (case thread_loop_from l' ws of (tr, e) \<Rightarrow> (Evaluated a l' # tr, e))
         | Faulted a \<Rightarrow> ([Faulted a], Crashed)))"

definition thread_loop :: "world list \<Rightarrow> tick_result list \<times> loop_end" where
  "thread_loop ws = thread_loop_from loop_init ws"

text \<open>What an iteration observes: the timestamps behind the two sample pointers, and
  whether the host reports the source active.\<close>

definition video_now :: "world \<Rightarrow> u64 option" where
  "video_now w = map_option frame_timestamp (deref_frame w (current_frame (inst w)))"

definition audio_now :: "world \<Rightarrow> u64 option" where
  "audio_now w = map_option audio_timestamp (deref_audio w (current_audio (inst w)))"

definition visible_now :: "world \<Rightarrow> bool" where
  "visible_now w = obs_source_active (host w) (source (inst w))"

section \<open>Sample states\<close>

text \<open>
  Concrete states for the examples below. The context is at address 0 and its parent at
  address 1; unless said otherwise the store of frames holds one frame at address 10 and
  the store of audio samples one sample at address 20.
\<close>

definition sample_host :: "bool \<Rightarrow> obs_host" where
  "sample_host act =
     \<lparr>obs_source_enabled = (\<lambda>p. True), obs_source_active = (\<lambda>p. act),
      obs_filter_get_parent = (\<lambda>p. Some 1)\<rparr>"

text \<open>The state right after \<^verbatim>\<open>filter_create\<close> with the default settings.\<close>

definition created_world :: "bool \<Rightarrow> u64 \<Rightarrow> u64 \<Rightarrow> world" where
  "created_world act vt at =
     \<lparr>inst = filter_create None filter_defaults (Some 0) None,
      frames = [10 \<mapsto> \<lparr>frame_timestamp = vt, frame_payload = []\<rparr>],
      audios = [20 \<mapsto> \<lparr>audio_timestamp = at, audio_payload = []\<rparr>],
      host = sample_host act, tasks = 0\<rparr>"

text \<open>A state with the watchdog running and both samples recorded.\<close>

definition sample_world :: "bool \<Rightarrow> u64 \<Rightarrow> u64 \<Rightarrow> world" where
  "sample_world act vt at =
     (created_world act vt at)
       \<lparr>inst := (filter_create None filter_defaults (Some 0) None)
          \<lparr>source := Some 1, current_frame := Some 10, current_audio := Some 20,
           thread := True, thread_active := True\<rparr>,
        tasks := 1\<rparr>"

text \<open>The same with the video timestamp check switched off, the source active.\<close>

definition sample_world_video_off :: "u64 \<Rightarrow> u64 \<Rightarrow> world" where
  "sample_world_video_off vt at =
     (sample_world True vt at)
       \<lparr>inst := (inst (sample_world True vt at))\<lparr>video_ts_check := False\<rparr>\<rparr>"

text \<open>
  A run of four iterations: the source is active at the first and inactive from the
  second on, with the default threshold of 5 seconds.
\<close>

definition hidden_run :: "world list" where
  "hidden_run = [sample_world True 1000000000 1, sample_world False 2000000000 2,
     sample_world False 7000000000 3, sample_world False 7000000001 4]"

text \<open>
  The state after \<^verbatim>\<open>filter_create\<close> and one call of \<^verbatim>\<open>filter_video\<close> with the frame
  at address 10 (timestamp 1000), on an enabled and active source: the watchdog has been
  started and no audio sample has been recorded.
\<close>

definition video_only_world :: world where
  "video_only_world = snd (projr (filter_video (created_world True 1000 0) (Some 10)))"

text \<open>
  A running state whose store holds two frames with the same timestamp and different
  payloads; the instance refers to the first.
\<close>

definition two_frame_world :: world where
  "two_frame_world =
     (sample_world True 5 7)
       \<lparr>frames := [10 \<mapsto> \<lparr>frame_timestamp = 5, frame_payload = [1]\<rparr>,
                   11 \<mapsto> \<lparr>frame_timestamp = 5, frame_payload = [2]\<rparr>]\<rparr>"


section \<open>Properties of one iteration\<close>

lemma thread_tick_evaluated:
  assumes "video_now w = Some t" and "audio_now w = Some u"
  shows "thread_tick w l =
     Evaluated
       ((if video_ts_check (inst w) \<and> frame_ts l = t then [StalledVideo] else [])
        @ (if audio_ts_check (inst w) \<and> audio_ts l = u then [StalledAudio] else [])
        @ (if source_enabled_check (inst w) \<and> \<not> visible_now w
              \<and> 1000000000 * ucast (source_enabled_time (inst w))
                  < t - (if \<not> visible_now w \<and> prev_visible l then t
                         else not_visible_since_ts l)
           then [HiddenTooLong] else []))
       \<lparr>frame_ts = t, audio_ts = u, prev_visible = visible_now w,
        not_visible_since_ts =
          (if \<not> visible_now w \<and> prev_visible l then t else not_visible_since_ts l)\<rparr>"
proof -
  from assms obtain fr au where
    fr: "deref_frame w (current_frame (inst w)) = Some fr" "frame_timestamp fr = t" and
    au: "deref_audio w (current_audio (inst w)) = Some au" "audio_timestamp au = u"
    by (auto simp: video_now_def audio_now_def)
  from fr have nn: "current_frame (inst w) \<noteq> None"
    by (auto simp: deref_frame_def split: option.splits)
  show ?thesis
    using fr au nn
    by (simp add: thread_tick_def video_check_def audio_check_def visible_update_def
        source_check_def visible_now_def Let_def)
qed

lemma thread_tick_Evaluated_D:
  assumes "thread_tick w l = Evaluated a l'"
  shows "\<exists>t u. video_now w = Some t \<and> audio_now w = Some u"
  using assms
  by (auto simp: thread_tick_def video_now_def audio_now_def Let_def
      split: if_splits option.splits)

lemma thread_tick_skipped:
  "current_frame (inst w) = None \<Longrightarrow> thread_tick w l = Skipped"
  by (simp add: thread_tick_def)

lemma thread_tick_audio_null:
  assumes "video_now w = Some t" and "current_audio (inst w) = None"
  shows "\<exists>a. thread_tick w l = Faulted a"
  using assms
  by (auto simp: thread_tick_def video_now_def audio_now_def Let_def deref_audio_def
      deref_frame_def split: if_splits option.splits)

subsection \<open>The threshold in nanoseconds\<close>

lemma threshold_unat:
  "unat (1000000000 * ucast (s :: u16) :: u64) = 1000000000 * unat s"
proof -
  have s: "unat s < 65536"
    using unsigned_less [of s, where 'a = nat] by simp
  have "unat s < 2 ^ 64"
    using s by simp
  then have u: "unat (ucast s :: u64) = unat s"
    by (simp add: unsigned_ucast_eq take_bit_nat_eq_self)
  have "unat (1000000000 :: u64) * unat (ucast s :: u64) < 2 ^ LENGTH(64)"
    using s u by simp
  then have "unat (1000000000 * ucast s :: u64)
               = unat (1000000000 :: u64) * unat (ucast s :: u64)"
    by (simp only: unat_mult_lem)
  then show ?thesis using u by simp
qed

lemma exceeds_unat:
  assumes "t0 \<le> (tj :: u64)"
  shows "(1000000000 * ucast (s :: u16) < tj - t0)
           = (unat t0 + 1000000000 * unat s < unat tj)"
proof -
  have "unat (tj - t0) = unat tj - unat t0"
    using assms by (simp add: unat_sub)
  moreover have "unat t0 \<le> unat tj"
    using assms by (simp add: word_le_nat_alt)
  ultimately show ?thesis
    by (simp add: word_less_nat_alt threshold_unat less_diff_conv add.commute)
qed

subsection \<open>The sample states\<close>

lemmas sample_defs = sample_world_def created_world_def sample_host_def filter_create_def
  filter_update_def filter_defaults_def bzalloc_def

lemma sample_video_now: "video_now (sample_world act vt at) = Some vt"
  by (simp add: video_now_def deref_frame_def sample_defs Let_def)

lemma sample_audio_now: "audio_now (sample_world act vt at) = Some at"
  by (simp add: audio_now_def deref_audio_def sample_defs Let_def)

lemma sample_visible_now: "visible_now (sample_world act vt at) = act"
  by (simp add: visible_now_def sample_defs Let_def)

lemma sample_inst:
  "inst (sample_world act vt at) = \<lparr>context_src = Some 0, source = Some 1, settings = None, current_frame = Some 10,
     current_audio = Some 20, video_ts_check = True, audio_ts_check = True,
     source_enabled_check = True, source_enabled_time = 5, thread = True,
     thread_active = True, signal_handler = None\<rparr>"
  by (simp add: sample_defs Let_def)

section \<open>Properties of the loop\<close>

lemma thread_loop_from_evaluated:
  assumes "thread_active (inst w)" and "thread_tick w l = Evaluated a l'"
  shows "thread_loop_from l (w # ws)
           = (Evaluated a l' # fst (thread_loop_from l' ws), snd (thread_loop_from l' ws))"
  using assms by (simp add: split_beta)

lemma thread_loop_from_two_evaluated:
  assumes "thread_active (inst w1)" and "video_now w1 = Some t1" and "audio_now w1 = Some u1"
    and "thread_active (inst w2)" and "video_now w2 = Some t2" and "audio_now w2 = Some u2"
  shows "\<exists>a1 l1 a2 l2.
      thread_tick w1 l = Evaluated a1 l1 \<and> thread_tick w2 l1 = Evaluated a2 l2
      \<and> thread_loop_from l (w1 # w2 # ws)
          = (Evaluated a1 l1 # Evaluated a2 l2 # fst (thread_loop_from l2 ws),
             snd (thread_loop_from l2 ws))"
proof -
  obtain a1 l1 where t1: "thread_tick w1 l = Evaluated a1 l1"
    by (simp add: thread_tick_evaluated [OF assms(2,3)])
  obtain a2 l2 where t2: "thread_tick w2 l1 = Evaluated a2 l2"
    by (simp add: thread_tick_evaluated [OF assms(5,6)])
  have "thread_loop_from l (w1 # w2 # ws)
          = (Evaluated a1 l1 # Evaluated a2 l2 # fst (thread_loop_from l2 ws),
             snd (thread_loop_from l2 ws))"
    by (simp only: thread_loop_from_evaluated [OF assms(1) t1]
        thread_loop_from_evaluated [OF assms(4) t2] fst_conv snd_conv)
  with t1 t2 show ?thesis by blast
qed

section \<open>The video timestamp check\<close>

text \<open>
  Claim C3. Let the loop, with any locals, observe two states in a row at which it
  evaluates an iteration, the second with the video timestamp check enabled. Then the
  run consists of these two evaluated iterations followed by the run from the locals of
  the second. Each of the two ends with \<open>frame_ts\<close> holding the video timestamp it
  observed, and the second plays the stalled-video alert exactly when the video
  timestamp it observes equals the one the first observed.
\<close>

theorem stalled_video_consecutive_ticks:
  assumes "thread_active (inst w1)" and "video_now w1 = Some t1" and "audio_now w1 \<noteq> None"
    and "thread_active (inst w2)" and "video_now w2 = Some t2" and "audio_now w2 \<noteq> None"
    and "video_ts_check (inst w2)"
  shows "\<exists>a1 l1 a2 l2.
      thread_loop_from l (w1 # w2 # ws)
        = (Evaluated a1 l1 # Evaluated a2 l2 # fst (thread_loop_from l2 ws),
           snd (thread_loop_from l2 ws))
      \<and> frame_ts l1 = t1 \<and> frame_ts l2 = t2
      \<and> (StalledVideo \<in> set a2 \<longleftrightarrow> t2 = t1)"
proof -
  from assms(3,6) obtain u1 u2 where u: "audio_now w1 = Some u1" "audio_now w2 = Some u2"
    by auto
  from thread_loop_from_two_evaluated [OF assms(1,2) u(1) assms(4,5) u(2), of l ws]
  obtain a1 l1 a2 l2 where
    t1: "thread_tick w1 l = Evaluated a1 l1" and t2: "thread_tick w2 l1 = Evaluated a2 l2" and
    run: "thread_loop_from l (w1 # w2 # ws)
          = (Evaluated a1 l1 # Evaluated a2 l2 # fst (thread_loop_from l2 ws),
             snd (thread_loop_from l2 ws))"
    by blast
  from t1 have l1: "frame_ts l1 = t1"
    by (auto simp: thread_tick_evaluated [OF assms(2) u(1)])
  from t2 have l2: "frame_ts l2 = t2"
    by (auto simp: thread_tick_evaluated [OF assms(5) u(2)])
  from t2 assms(7) l1 have "StalledVideo \<in> set a2 \<longleftrightarrow> t2 = t1"
    by (auto simp: thread_tick_evaluated [OF assms(5) u(2)])
  with run l1 l2 show ?thesis by blast
qed

theorem stalled_video_consecutive_ticks_witness:
  "thread_active (inst (sample_world True 5 7)) \<and> video_now (sample_world True 5 7) = Some 5
   \<and> audio_now (sample_world True 5 7) \<noteq> None
   \<and> thread_active (inst (sample_world True 5 8)) \<and> video_now (sample_world True 5 8) = Some 5
   \<and> audio_now (sample_world True 5 8) \<noteq> None
   \<and> video_ts_check (inst (sample_world True 5 8))
   \<and> thread_loop_from loop_init
        [sample_world True 5 7, sample_world True 5 8, sample_world True 6 9]
       = ([Evaluated []
             \<lparr>frame_ts = 5, audio_ts = 7, prev_visible = True, not_visible_since_ts = 0\<rparr>,
           Evaluated [StalledVideo]
             \<lparr>frame_ts = 5, audio_ts = 8, prev_visible = True, not_visible_since_ts = 0\<rparr>,
           Evaluated []
             \<lparr>frame_ts = 6, audio_ts = 9, prev_visible = True, not_visible_since_ts = 0\<rparr>],
          StillRunning
             \<lparr>frame_ts = 6, audio_ts = 9, prev_visible = True, not_visible_since_ts = 0\<rparr>)
   \<and> (\<exists>a1 l1 a2 l2.
        thread_loop_from loop_init
            [sample_world True 5 7, sample_world True 5 8, sample_world True 6 9]
          = (Evaluated a1 l1 # Evaluated a2 l2
               # fst (thread_loop_from l2 [sample_world True 6 9]),
             snd (thread_loop_from l2 [sample_world True 6 9]))
        \<and> frame_ts l1 = 5 \<and> frame_ts l2 = 5 \<and> StalledVideo \<in> set a2)"
proof -
  let ?L1 = "\<lparr>frame_ts = 5, audio_ts = 7, prev_visible = True, not_visible_since_ts = 0 :: u64\<rparr>"
  let ?L2 = "\<lparr>frame_ts = 5, audio_ts = 8, prev_visible = True, not_visible_since_ts = 0 :: u64\<rparr>"
  let ?L3 = "\<lparr>frame_ts = 6, audio_ts = 9, prev_visible = True, not_visible_since_ts = 0 :: u64\<rparr>"
  note ev = thread_tick_evaluated [OF sample_video_now sample_audio_now]
  have act: "\<And>a v u. thread_active (inst (sample_world a v u))"
    by (simp add: sample_inst)
  have t1: "thread_tick (sample_world True 5 7) loop_init = Evaluated [] ?L1"
    by (simp add: ev sample_visible_now sample_inst loop_init_def)
  have t2: "thread_tick (sample_world True 5 8) ?L1 = Evaluated [StalledVideo] ?L2"
    by (simp add: ev sample_visible_now sample_inst)
  have t3: "thread_tick (sample_world True 6 9) ?L2 = Evaluated [] ?L3"
    by (simp add: ev sample_visible_now sample_inst)
  have run: "thread_loop_from loop_init
        [sample_world True 5 7, sample_world True 5 8, sample_world True 6 9]
       = ([Evaluated [] ?L1, Evaluated [StalledVideo] ?L2, Evaluated [] ?L3], StillRunning ?L3)"
    by (simp only: thread_loop_from_evaluated [OF act t1] thread_loop_from_evaluated [OF act t2]
        thread_loop_from_evaluated [OF act t3] thread_loop_from.simps(1) fst_conv snd_conv)
  have h: "thread_active (inst (sample_world True 5 7))" "video_now (sample_world True 5 7) = Some 5"
    "audio_now (sample_world True 5 7) \<noteq> None"
    "thread_active (inst (sample_world True 5 8))" "video_now (sample_world True 5 8) = Some 5"
    "audio_now (sample_world True 5 8) \<noteq> None"
    "video_ts_check (inst (sample_world True 5 8))"
    by (simp_all add: sample_video_now sample_audio_now sample_inst)
  from stalled_video_consecutive_ticks [OF h, of loop_init "[sample_world True 6 9]"]
  have "\<exists>a1 l1 a2 l2.
        thread_loop_from loop_init
            [sample_world True 5 7, sample_world True 5 8, sample_world True 6 9]
          = (Evaluated a1 l1 # Evaluated a2 l2
               # fst (thread_loop_from l2 [sample_world True 6 9]),
             snd (thread_loop_from l2 [sample_world True 6 9]))
        \<and> frame_ts l1 = 5 \<and> frame_ts l2 = 5 \<and> StalledVideo \<in> set a2"
    by simp
  with run h show ?thesis by blast
qed

lemma thread_tick_no_video_alert:
  assumes "\<not> video_ts_check (inst w)"
  shows "StalledVideo \<notin> set (alerts_of (thread_tick w l))"
  using assms
  by (auto simp: thread_tick_def video_check_def Let_def split: option.splits if_splits)

text \<open>
  Claim C8. In a run of the loop whose every observed state has the video timestamp
  check disabled, no iteration plays the stalled-video alert, whatever the video
  timestamps are and whatever the loop's locals were at the start.
\<close>

theorem video_check_disabled_no_alert:
  assumes "\<forall>w\<in>set ws. \<not> video_ts_check (inst w)"
  shows "\<forall>r\<in>set (fst (thread_loop_from l ws)). StalledVideo \<notin> set (alerts_of r)"
  using assms
proof (induction ws arbitrary: l)
  case Nil
  then show ?case by simp
next
  case (Cons w ws)
  then have here: "StalledVideo \<notin> set (alerts_of (thread_tick w l))"
    by (simp add: thread_tick_no_video_alert)
  from Cons have rest: "\<And>l'. \<forall>r\<in>set (fst (thread_loop_from l' ws)).
      StalledVideo \<notin> set (alerts_of r)"
    by simp
  show ?case
  proof (cases "thread_active (inst w)")
    case False
    then show ?thesis by simp
  next
    case True
    show ?thesis
    proof (cases "thread_tick w l")
      case Skipped
      then show ?thesis using True rest [of l] by (simp add: split_beta)
    next
      case (Evaluated a l')
      then show ?thesis using True here rest [of l'] by (simp add: split_beta)
    next
      case (Faulted a)
      then show ?thesis using True here by simp
    qed
  qed
qed

theorem video_check_disabled_no_alert_witness:
  "list_all (\<lambda>w. \<not> video_ts_check (inst w))
      [sample_world_video_off 5 7, sample_world_video_off 5 8]
   \<and> list_all (\<lambda>r. StalledVideo \<notin> set (alerts_of r))
        (fst (thread_loop_from loop_init
          [sample_world_video_off 5 7, sample_world_video_off 5 8]))
   \<and> length (fst (thread_loop_from loop_init
          [sample_world_video_off 5 7,
           sample_world_video_off 5 8])) = 2"
proof -
  let ?A = "sample_world_video_off 5 7"
  let ?B = "sample_world_video_off 5 8"
  note defs = sample_world_video_off_def sample_defs
  have h: "\<forall>w\<in>set [?A, ?B]. \<not> video_ts_check (inst w)"
    by (simp add: sample_world_video_off_def)
  have va: "video_now ?A = Some 5" "audio_now ?A = Some 7"
    by (simp_all add: video_now_def audio_now_def deref_frame_def deref_audio_def defs Let_def)
  have vb: "video_now ?B = Some 5" "audio_now ?B = Some 8"
    by (simp_all add: video_now_def audio_now_def deref_frame_def deref_audio_def defs Let_def)
  have t1: "thread_tick ?A loop_init
      = Evaluated [] \<lparr>frame_ts = 5, audio_ts = 7, prev_visible = True, not_visible_since_ts = 0\<rparr>"
    by (subst thread_tick_evaluated [OF va])
      (simp add: visible_now_def defs Let_def loop_init_def)
  have t2: "thread_tick ?B
        \<lparr>frame_ts = 5, audio_ts = 7, prev_visible = True, not_visible_since_ts = 0\<rparr>
      = Evaluated [] \<lparr>frame_ts = 5, audio_ts = 8, prev_visible = True, not_visible_since_ts = 0\<rparr>"
    by (subst thread_tick_evaluated [OF vb])
      (simp add: visible_now_def defs Let_def)
  have act: "thread_active (inst ?A)" "thread_active (inst ?B)"
    by (simp_all add: sample_world_video_off_def sample_inst)
  have r2: "thread_loop_from
        \<lparr>frame_ts = 5, audio_ts = 7, prev_visible = True, not_visible_since_ts = 0\<rparr> [?B]
      = ([Evaluated [] \<lparr>frame_ts = 5, audio_ts = 8, prev_visible = True, not_visible_since_ts = 0\<rparr>],
         StillRunning \<lparr>frame_ts = 5, audio_ts = 8, prev_visible = True, not_visible_since_ts = 0\<rparr>)"
    by (simp only: thread_loop_from_evaluated [OF act(2) t2] thread_loop_from.simps(1)
        fst_conv snd_conv)
  have "fst (thread_loop_from loop_init [?A, ?B])
      = [Evaluated [] \<lparr>frame_ts = 5, audio_ts = 7, prev_visible = True, not_visible_since_ts = 0\<rparr>,
         Evaluated [] \<lparr>frame_ts = 5, audio_ts = 8, prev_visible = True, not_visible_since_ts = 0\<rparr>]"
    by (simp only: thread_loop_from_evaluated [OF act(1) t1] r2 fst_conv snd_conv)
  then have len: "length (fst (thread_loop_from loop_init [?A, ?B])) = 2"
    by simp
  show ?thesis
    unfolding list_all_iff
    using video_check_disabled_no_alert [OF h, of loop_init] h len by blast
qed

section \<open>The visibility check\<close>

lemma run_inactive_keeps_since:
  assumes "\<forall>w\<in>set ws. thread_active (inst w) \<and> \<not> visible_now w
             \<and> video_now w \<noteq> None \<and> audio_now w \<noteq> None"
    and "\<not> prev_visible l"
  shows "length (fst (thread_loop_from l ws)) = length ws
    \<and> (\<forall>r\<in>set (fst (thread_loop_from l ws)).
          \<exists>a l'. r = Evaluated a l'
            \<and> not_visible_since_ts l' = not_visible_since_ts l \<and> \<not> prev_visible l')"
  using assms
proof (induction ws arbitrary: l)
  case Nil
  then show ?case by simp
next
  case (Cons w ws)
  from Cons.prems(1) obtain t u where o: "video_now w = Some t" "audio_now w = Some u"
    by auto
  from Cons.prems(1) have w: "thread_active (inst w)" "\<not> visible_now w"
    by auto
  obtain a l1 where t: "thread_tick w l = Evaluated a l1"
    by (simp add: thread_tick_evaluated [OF o])
  from t w Cons.prems(2)
  have l1: "\<not> prev_visible l1" "not_visible_since_ts l1 = not_visible_since_ts l"
    by (auto simp: thread_tick_evaluated [OF o])
  have eq: "fst (thread_loop_from l (w # ws)) = Evaluated a l1 # fst (thread_loop_from l1 ws)"
    by (simp only: thread_loop_from_evaluated [OF w(1) t] fst_conv)
  from Cons.prems(1) have "\<forall>w\<in>set ws. thread_active (inst w) \<and> \<not> visible_now w
             \<and> video_now w \<noteq> None \<and> audio_now w \<noteq> None"
    by simp
  from Cons.IH [OF this l1(1)] l1 show ?case
    by (simp add: eq del: thread_loop_from.simps)
qed

text \<open>
  Claim C7. Let the loop, with any locals, observe two states in a row at which it
  evaluates an iteration. Each iteration stores the visibility it observed in
  \<open>prev_visible\<close>. The second sets \<open>not_visible_since_ts\<close> to the video timestamp it
  observes when the source was active at the first and is inactive at the second, and
  leaves it as the first left it otherwise. When the source is inactive at the second
  and stays inactive over the evaluated iterations that follow, every one of them leaves
  \<open>not_visible_since_ts\<close> as the second left it.
\<close>

theorem not_visible_since_edge_triggered:
  assumes "thread_active (inst w1)" and "video_now w1 = Some t1" and "audio_now w1 \<noteq> None"
    and "thread_active (inst w2)" and "video_now w2 = Some t2" and "audio_now w2 \<noteq> None"
  shows "\<exists>a1 l1 a2 l2.
      thread_loop_from l (w1 # w2 # ws)
        = (Evaluated a1 l1 # Evaluated a2 l2 # fst (thread_loop_from l2 ws),
           snd (thread_loop_from l2 ws))
      \<and> prev_visible l1 = visible_now w1 \<and> prev_visible l2 = visible_now w2
      \<and> not_visible_since_ts l2
          = (if visible_now w1 \<and> \<not> visible_now w2 then t2 else not_visible_since_ts l1)
      \<and> (\<not> visible_now w2
           \<and> (\<forall>w\<in>set ws. thread_active (inst w) \<and> \<not> visible_now w
                 \<and> video_now w \<noteq> None \<and> audio_now w \<noteq> None)
         \<longrightarrow> length (fst (thread_loop_from l2 ws)) = length ws
           \<and> (\<forall>r\<in>set (fst (thread_loop_from l2 ws)).
                 \<exists>a l'. r = Evaluated a l'
                   \<and> not_visible_since_ts l' = not_visible_since_ts l2))"
proof -
  from assms(3,6) obtain u1 u2 where u: "audio_now w1 = Some u1" "audio_now w2 = Some u2"
    by auto
  from thread_loop_from_two_evaluated [OF assms(1,2) u(1) assms(4,5) u(2), of l ws]
  obtain a1 l1 a2 l2 where
    t1: "thread_tick w1 l = Evaluated a1 l1" and t2: "thread_tick w2 l1 = Evaluated a2 l2" and
    run: "thread_loop_from l (w1 # w2 # ws)
          = (Evaluated a1 l1 # Evaluated a2 l2 # fst (thread_loop_from l2 ws),
             snd (thread_loop_from l2 ws))"
    by blast
  from t1 have l1: "prev_visible l1 = visible_now w1"
    by (auto simp: thread_tick_evaluated [OF assms(2) u(1)])
  from t2 have l2: "prev_visible l2 = visible_now w2"
    "not_visible_since_ts l2
       = (if \<not> visible_now w2 \<and> prev_visible l1 then t2 else not_visible_since_ts l1)"
    by (auto simp: thread_tick_evaluated [OF assms(5) u(2)])
  from l2(2) l1 have since: "not_visible_since_ts l2
          = (if visible_now w1 \<and> \<not> visible_now w2 then t2 else not_visible_since_ts l1)"
    by auto
  have rest: "length (fst (thread_loop_from l2 ws)) = length ws
           \<and> (\<forall>r\<in>set (fst (thread_loop_from l2 ws)).
                 \<exists>a l'. r = Evaluated a l'
                   \<and> not_visible_since_ts l' = not_visible_since_ts l2)"
    if "\<not> visible_now w2" and "\<forall>w\<in>set ws. thread_active (inst w) \<and> \<not> visible_now w
                 \<and> video_now w \<noteq> None \<and> audio_now w \<noteq> None"
  proof -
    from that(1) l2(1) have "\<not> prev_visible l2" by simp
    from run_inactive_keeps_since [OF that(2) this] show ?thesis by blast
  qed
  from run l1 l2(1) since rest show ?thesis by blast
qed

theorem not_visible_since_edge_triggered_witness:
  "thread_active (inst (sample_world True 5 7)) \<and> video_now (sample_world True 5 7) = Some 5
   \<and> audio_now (sample_world True 5 7) \<noteq> None
   \<and> thread_active (inst (sample_world False 9 9)) \<and> video_now (sample_world False 9 9) = Some 9
   \<and> audio_now (sample_world False 9 9) \<noteq> None
   \<and> visible_now (sample_world True 5 7) \<and> \<not> visible_now (sample_world False 9 9)
   \<and> list_all (\<lambda>w. thread_active (inst w) \<and> \<not> visible_now w
                    \<and> video_now w \<noteq> None \<and> audio_now w \<noteq> None)
        [sample_world False 12 12, sample_world False 15 15]
   \<and> thread_loop_from loop_init
        [sample_world True 5 7, sample_world False 9 9,
         sample_world False 12 12, sample_world False 15 15]
       = ([Evaluated []
             \<lparr>frame_ts = 5, audio_ts = 7, prev_visible = True, not_visible_since_ts = 0\<rparr>,
           Evaluated []
             \<lparr>frame_ts = 9, audio_ts = 9, prev_visible = False, not_visible_since_ts = 9\<rparr>,
           Evaluated []
             \<lparr>frame_ts = 12, audio_ts = 12, prev_visible = False, not_visible_since_ts = 9\<rparr>,
           Evaluated []
             \<lparr>frame_ts = 15, audio_ts = 15, prev_visible = False, not_visible_since_ts = 9\<rparr>],
          StillRunning
             \<lparr>frame_ts = 15, audio_ts = 15, prev_visible = False, not_visible_since_ts = 9\<rparr>)
   \<and> (\<exists>a1 l1 a2 l2.
        thread_loop_from loop_init
            [sample_world True 5 7, sample_world False 9 9,
             sample_world False 12 12, sample_world False 15 15]
          = (Evaluated a1 l1 # Evaluated a2 l2
               # fst (thread_loop_from l2 [sample_world False 12 12, sample_world False 15 15]),
             snd (thread_loop_from l2 [sample_world False 12 12, sample_world False 15 15]))
        \<and> prev_visible l1 \<and> \<not> prev_visible l2 \<and> not_visible_since_ts l2 = 9
        \<and> length (fst (thread_loop_from l2
             [sample_world False 12 12, sample_world False 15 15])) = 2
        \<and> list_all (\<lambda>r. \<exists>a l'. r = Evaluated a l' \<and> not_visible_since_ts l' = 9)
             (fst (thread_loop_from l2 [sample_world False 12 12, sample_world False 15 15])))"
proof -
  let ?L1 = "\<lparr>frame_ts = 5, audio_ts = 7, prev_visible = True, not_visible_since_ts = 0 :: u64\<rparr>"
  let ?L2 = "\<lparr>frame_ts = 9, audio_ts = 9, prev_visible = False, not_visible_since_ts = 9 :: u64\<rparr>"
  let ?L3 = "\<lparr>frame_ts = 12, audio_ts = 12, prev_visible = False, not_visible_since_ts = 9 :: u64\<rparr>"
  let ?L4 = "\<lparr>frame_ts = 15, audio_ts = 15, prev_visible = False, not_visible_since_ts = 9 :: u64\<rparr>"
  note ev = thread_tick_evaluated [OF sample_video_now sample_audio_now]
  have act: "\<And>a v u. thread_active (inst (sample_world a v u))"
    by (simp add: sample_inst)
  have t1: "thread_tick (sample_world True 5 7) loop_init = Evaluated [] ?L1"
    by (simp add: ev sample_visible_now sample_inst loop_init_def)
  have t2: "thread_tick (sample_world False 9 9) ?L1 = Evaluated [] ?L2"
    by (simp add: ev sample_visible_now sample_inst)
  have t3: "thread_tick (sample_world False 12 12) ?L2 = Evaluated [] ?L3"
    by (simp add: ev sample_visible_now sample_inst)
  have t4: "thread_tick (sample_world False 15 15) ?L3 = Evaluated [] ?L4"
    by (simp add: ev sample_visible_now sample_inst)
  have run: "thread_loop_from loop_init
        [sample_world True 5 7, sample_world False 9 9,
         sample_world False 12 12, sample_world False 15 15]
       = ([Evaluated [] ?L1, Evaluated [] ?L2, Evaluated [] ?L3, Evaluated [] ?L4],
          StillRunning ?L4)"
    by (simp only: thread_loop_from_evaluated [OF act t1] thread_loop_from_evaluated [OF act t2]
        thread_loop_from_evaluated [OF act t3] thread_loop_from_evaluated [OF act t4]
        thread_loop_from.simps(1) fst_conv snd_conv)
  have h: "thread_active (inst (sample_world True 5 7))" "video_now (sample_world True 5 7) = Some 5"
    "audio_now (sample_world True 5 7) \<noteq> None"
    "thread_active (inst (sample_world False 9 9))" "video_now (sample_world False 9 9) = Some 9"
    "audio_now (sample_world False 9 9) \<noteq> None"
    by (simp_all add: sample_video_now sample_audio_now sample_inst)
  have v: "visible_now (sample_world True 5 7)" "\<not> visible_now (sample_world False 9 9)"
    by (simp_all add: sample_visible_now)
  have rest: "\<forall>w\<in>set [sample_world False 12 12, sample_world False 15 15].
      thread_active (inst w) \<and> \<not> visible_now w
      \<and> video_now w \<noteq> None \<and> audio_now w \<noteq> None"
    by (simp add: sample_video_now sample_audio_now sample_visible_now sample_inst)
  from not_visible_since_edge_triggered [OF h, of loop_init
      "[sample_world False 12 12, sample_world False 15 15]"] v rest
  have "\<exists>a1 l1 a2 l2.
        thread_loop_from loop_init
            [sample_world True 5 7, sample_world False 9 9,
             sample_world False 12 12, sample_world False 15 15]
          = (Evaluated a1 l1 # Evaluated a2 l2
               # fst (thread_loop_from l2 [sample_world False 12 12, sample_world False 15 15]),
             snd (thread_loop_from l2 [sample_world False 12 12, sample_world False 15 15]))
        \<and> prev_visible l1 \<and> \<not> prev_visible l2 \<and> not_visible_since_ts l2 = 9
        \<and> length (fst (thread_loop_from l2
             [sample_world False 12 12, sample_world False 15 15])) = 2
        \<and> list_all (\<lambda>r. \<exists>a l'. r = Evaluated a l' \<and> not_visible_since_ts l' = 9)
             (fst (thread_loop_from l2 [sample_world False 12 12, sample_world False 15 15]))"
    unfolding list_all_iff by (elim exE conjE) (intro exI conjI, assumption, simp_all)
  moreover have "list_all (\<lambda>w. thread_active (inst w) \<and> \<not> visible_now w
                    \<and> video_now w \<noteq> None \<and> audio_now w \<noteq> None)
        [sample_world False 12 12, sample_world False 15 15]"
    using rest by (simp add: list_all_iff)
  ultimately show ?thesis using run h v by blast
qed

section \<open>Alerts of an iteration\<close>

lemma stalled_video_every_tick:
  assumes "\<forall>w\<in>set ws. thread_active (inst w) \<and> video_ts_check (inst w)
             \<and> video_now w = Some t \<and> audio_now w \<noteq> None"
    and "frame_ts l = t"
  shows "length (fst (thread_loop_from l ws)) = length ws
         \<and> (\<forall>r\<in>set (fst (thread_loop_from l ws)). StalledVideo \<in> set (alerts_of r))"
  using assms
proof (induction ws arbitrary: l)
  case Nil
  then show ?case by simp
next
  case (Cons w ws)
  then obtain u where o: "video_now w = Some t" "audio_now w = Some u"
    by auto
  from Cons.prems have w: "thread_active (inst w)" "video_ts_check (inst w)"
    by auto
  obtain a l' where t: "thread_tick w l = Evaluated a l'"
    by (simp add: thread_tick_evaluated [OF o])
  from t have l': "frame_ts l' = t"
    by (auto simp: thread_tick_evaluated [OF o])
  from t w Cons.prems(2) have a: "StalledVideo \<in> set a"
    by (auto simp: thread_tick_evaluated [OF o])
  from Cons.prems(1) have "\<forall>w\<in>set ws. thread_active (inst w) \<and> video_ts_check (inst w)
             \<and> video_now w = Some t \<and> audio_now w \<noteq> None"
    by simp
  moreover have "fst (thread_loop_from l (w # ws))
      = Evaluated a l' # fst (thread_loop_from l' ws)"
    by (simp only: thread_loop_from_evaluated [OF w(1) t] fst_conv)
  ultimately show ?case
    using Cons.IH [OF _ l'] a by (simp del: thread_loop_from.simps)
qed

lemma stalled_audio_every_tick:
  assumes "\<forall>w\<in>set ws. thread_active (inst w) \<and> audio_ts_check (inst w)
             \<and> audio_now w = Some u \<and> video_now w \<noteq> None"
    and "audio_ts l = u"
  shows "length (fst (thread_loop_from l ws)) = length ws
         \<and> (\<forall>r\<in>set (fst (thread_loop_from l ws)). StalledAudio \<in> set (alerts_of r))"
  using assms
proof (induction ws arbitrary: l)
  case Nil
  then show ?case by simp
next
  case (Cons w ws)
  then obtain t where o: "video_now w = Some t" "audio_now w = Some u"
    by auto
  from Cons.prems have w: "thread_active (inst w)" "audio_ts_check (inst w)"
    by auto
  obtain a l' where t: "thread_tick w l = Evaluated a l'"
    by (simp add: thread_tick_evaluated [OF o])
  from t have l': "audio_ts l' = u"
    by (auto simp: thread_tick_evaluated [OF o])
  from t w Cons.prems(2) have a: "StalledAudio \<in> set a"
    by (auto simp: thread_tick_evaluated [OF o])
  from Cons.prems(1) have "\<forall>w\<in>set ws. thread_active (inst w) \<and> audio_ts_check (inst w)
             \<and> audio_now w = Some u \<and> video_now w \<noteq> None"
    by simp
  moreover have "fst (thread_loop_from l (w # ws))
      = Evaluated a l' # fst (thread_loop_from l' ws)"
    by (simp only: thread_loop_from_evaluated [OF w(1) t] fst_conv)
  ultimately show ?case
    using Cons.IH [OF _ l'] a by (simp del: thread_loop_from.simps)
qed

text \<open>
  Claim C4. An evaluated iteration plays one alert for each check that is enabled and
  whose condition holds, as separate calls in the order video, audio, visibility. While
  a video (or audio) stall lasts, every evaluated iteration plays the stalled-video (or
  stalled-audio) alert again: over a run of states that all show the timestamp cached by
  the previous iteration, every iteration is evaluated and every one plays the alert.
\<close>

theorem alert_per_firing_check:
  "(video_now w = Some t \<and> audio_now w = Some u \<longrightarrow>
      alerts_of (thread_tick w l) =
        (if video_ts_check (inst w) \<and> frame_ts l = t then [StalledVideo] else [])
        @ (if audio_ts_check (inst w) \<and> audio_ts l = u then [StalledAudio] else [])
        @ (if source_enabled_check (inst w) \<and> \<not> visible_now w
              \<and> 1000000000 * ucast (source_enabled_time (inst w))
                  < t - (if \<not> visible_now w \<and> prev_visible l then t
                         else not_visible_since_ts l)
           then [HiddenTooLong] else []))
   \<and> ((\<forall>w\<in>set ws. thread_active (inst w) \<and> video_ts_check (inst w)
             \<and> video_now w = Some t \<and> audio_now w \<noteq> None) \<and> frame_ts l = t \<longrightarrow>
        length (fst (thread_loop_from l ws)) = length ws
        \<and> (\<forall>r\<in>set (fst (thread_loop_from l ws)). StalledVideo \<in> set (alerts_of r)))
   \<and> ((\<forall>w\<in>set ws. thread_active (inst w) \<and> audio_ts_check (inst w)
             \<and> audio_now w = Some u \<and> video_now w \<noteq> None) \<and> audio_ts l = u \<longrightarrow>
        length (fst (thread_loop_from l ws)) = length ws
        \<and> (\<forall>r\<in>set (fst (thread_loop_from l ws)). StalledAudio \<in> set (alerts_of r)))"
proof (intro conjI impI)
  assume "video_now w = Some t \<and> audio_now w = Some u"
  then show "alerts_of (thread_tick w l) =
        (if video_ts_check (inst w) \<and> frame_ts l = t then [StalledVideo] else [])
        @ (if audio_ts_check (inst w) \<and> audio_ts l = u then [StalledAudio] else [])
        @ (if source_enabled_check (inst w) \<and> \<not> visible_now w
              \<and> 1000000000 * ucast (source_enabled_time (inst w))
                  < t - (if \<not> visible_now w \<and> prev_visible l then t
                         else not_visible_since_ts l)
           then [HiddenTooLong] else [])"
    by (simp add: thread_tick_evaluated)
next
  assume h: "(\<forall>w\<in>set ws. thread_active (inst w) \<and> video_ts_check (inst w)
             \<and> video_now w = Some t \<and> audio_now w \<noteq> None) \<and> frame_ts l = t"
  from h stalled_video_every_tick [of ws t l]
  show "length (fst (thread_loop_from l ws)) = length ws" by blast
  from h stalled_video_every_tick [of ws t l]
  show "\<forall>r\<in>set (fst (thread_loop_from l ws)). StalledVideo \<in> set (alerts_of r)" by blast
next
  assume h: "(\<forall>w\<in>set ws. thread_active (inst w) \<and> audio_ts_check (inst w)
             \<and> audio_now w = Some u \<and> video_now w \<noteq> None) \<and> audio_ts l = u"
  from h stalled_audio_every_tick [of ws u l]
  show "length (fst (thread_loop_from l ws)) = length ws" by blast
  from h stalled_audio_every_tick [of ws u l]
  show "\<forall>r\<in>set (fst (thread_loop_from l ws)). StalledAudio \<in> set (alerts_of r)" by blast
qed

theorem alert_per_firing_check_witness:
  "video_now (sample_world False 6000000000 7) = Some 6000000000
   \<and> audio_now (sample_world False 6000000000 7) = Some 7
   \<and> alerts_of (thread_tick (sample_world False 6000000000 7)
        \<lparr>frame_ts = 6000000000, audio_ts = 7, prev_visible = False,
         not_visible_since_ts = 0\<rparr>) = [StalledVideo, StalledAudio, HiddenTooLong]
   \<and> length (fst (thread_loop_from
        \<lparr>frame_ts = 6000000000, audio_ts = 7, prev_visible = False,
         not_visible_since_ts = 0\<rparr>
        [sample_world False 6000000000 7, sample_world False 6000000000 7,
         sample_world False 6000000000 7])) = 3
   \<and> list_all (\<lambda>r. StalledVideo \<in> set (alerts_of r) \<and> StalledAudio \<in> set (alerts_of r))
        (fst (thread_loop_from
          \<lparr>frame_ts = 6000000000, audio_ts = 7, prev_visible = False,
           not_visible_since_ts = 0\<rparr>
          [sample_world False 6000000000 7, sample_world False 6000000000 7,
           sample_world False 6000000000 7]))"
  using alert_per_firing_check [of "sample_world False 6000000000 7" 6000000000 7
      "\<lparr>frame_ts = 6000000000, audio_ts = 7, prev_visible = False,
         not_visible_since_ts = 0\<rparr>"
      "[sample_world False 6000000000 7, sample_world False 6000000000 7,
         sample_world False 6000000000 7]"]
  by (simp add: sample_video_now sample_audio_now sample_visible_now sample_inst
      list_all_iff del: thread_loop_from.simps)

section \<open>The visibility check without a transition\<close>

lemma run_never_visible:
  assumes "\<forall>w\<in>set ws. \<not> visible_now w"
    and "\<not> prev_visible l"
    and "thread_loop_from l ws = (tr, StillRunning l')"
  shows "\<not> prev_visible l' \<and> not_visible_since_ts l' = not_visible_since_ts l"
  using assms
proof (induction ws arbitrary: l tr)
  case Nil
  then show ?case by simp
next
  case (Cons w ws)
  from Cons.prems(3) have act: "thread_active (inst w)"
    by (auto split: if_splits)
  from Cons.prems(1) have nv: "\<not> visible_now w" and rest: "\<forall>w\<in>set ws. \<not> visible_now w"
    by simp_all
  show ?case
  proof (cases "thread_tick w l")
    case Skipped
    with act Cons.prems(3) obtain tr' where "thread_loop_from l ws = (tr', StillRunning l')"
      by (auto split: prod.splits)
    from Cons.IH [OF rest Cons.prems(2) this] show ?thesis .
  next
    case (Evaluated a l1)
    with act Cons.prems(3) obtain tr' where r: "thread_loop_from l1 ws = (tr', StillRunning l')"
      by (auto split: prod.splits)
    from Evaluated obtain t u where o: "video_now w = Some t" "audio_now w = Some u"
      using thread_tick_Evaluated_D by blast
    from Evaluated nv Cons.prems(2)
    have l1: "\<not> prev_visible l1" "not_visible_since_ts l1 = not_visible_since_ts l"
      by (auto simp: thread_tick_evaluated [OF o])
    from Cons.IH [OF rest l1(1) r] l1(2) show ?thesis by simp
  next
    case (Faulted a)
    with act Cons.prems(3) show ?thesis by simp
  qed
qed

text \<open>
  Claim C9. When the source is inactive at every iteration since the loop started, the
  loop still has \<open>not_visible_since_ts = 0\<close> and \<open>prev_visible\<close> false, and the next
  evaluated iteration with the check enabled and the source inactive plays the
  hidden-too-long alert exactly when the current video timestamp alone is greater than
  the threshold in nanoseconds.
\<close>

theorem hidden_alert_without_transition:
  assumes "\<forall>w\<in>set ws. \<not> visible_now w"
    and "thread_loop ws = (tr, StillRunning l)"
  shows "not_visible_since_ts l = 0 \<and> \<not> prev_visible l
    \<and> (\<forall>w t u. video_now w = Some t \<and> audio_now w = Some u
           \<and> source_enabled_check (inst w) \<and> \<not> visible_now w
         \<longrightarrow> (HiddenTooLong \<in> set (alerts_of (thread_tick w l))
              \<longleftrightarrow> 1000000000 * unat (source_enabled_time (inst w)) < unat t))"
proof -
  from assms(2) have r: "thread_loop_from loop_init ws = (tr, StillRunning l)"
    by (simp add: thread_loop_def)
  have "\<not> prev_visible loop_init"
    by (simp add: loop_init_def)
  from run_never_visible [OF assms(1) this r]
  have l: "\<not> prev_visible l" "not_visible_since_ts l = 0"
    by (simp_all add: loop_init_def)
  have "HiddenTooLong \<in> set (alerts_of (thread_tick w l))
          \<longleftrightarrow> 1000000000 * unat (source_enabled_time (inst w)) < unat t"
    if "video_now w = Some t" "audio_now w = Some u" "source_enabled_check (inst w)"
      "\<not> visible_now w" for w t u
    using that l exceeds_unat [of 0 t "source_enabled_time (inst w)"]
    by (simp add: thread_tick_evaluated [OF that(1,2)])
  with l show ?thesis by blast
qed

theorem hidden_alert_without_transition_witness:
  "list_all (\<lambda>w. \<not> visible_now w)
      [sample_world False 1000000000 1, sample_world False 2000000000 2]
   \<and> thread_loop [sample_world False 1000000000 1, sample_world False 2000000000 2]
       = ([Evaluated [] \<lparr>frame_ts = 1000000000, audio_ts = 1, prev_visible = False,
                          not_visible_since_ts = 0\<rparr>,
           Evaluated [] \<lparr>frame_ts = 2000000000, audio_ts = 2, prev_visible = False,
                          not_visible_since_ts = 0\<rparr>],
          StillRunning \<lparr>frame_ts = 2000000000, audio_ts = 2, prev_visible = False,
                          not_visible_since_ts = 0\<rparr>)
   \<and> video_now (sample_world False 6000000000 3) = Some 6000000000
   \<and> audio_now (sample_world False 6000000000 3) = Some 3
   \<and> source_enabled_check (inst (sample_world False 6000000000 3))
   \<and> \<not> visible_now (sample_world False 6000000000 3)
   \<and> 1000000000 * unat (source_enabled_time (inst (sample_world False 6000000000 3)))
       < unat (6000000000 :: u64)
   \<and> HiddenTooLong \<in> set (alerts_of (thread_tick (sample_world False 6000000000 3)
        \<lparr>frame_ts = 2000000000, audio_ts = 2, prev_visible = False,
         not_visible_since_ts = 0\<rparr>))"
proof -
  let ?A = "sample_world False 1000000000 1"
  let ?B = "sample_world False 2000000000 2"
  let ?L1 = "\<lparr>frame_ts = 1000000000, audio_ts = 1, prev_visible = False,
                          not_visible_since_ts = 0 :: u64\<rparr>"
  let ?L2 = "\<lparr>frame_ts = 2000000000, audio_ts = 2, prev_visible = False,
                          not_visible_since_ts = 0 :: u64\<rparr>"
  have h: "\<forall>w\<in>set [?A, ?B]. \<not> visible_now w"
    by (simp add: sample_visible_now)
  have act: "\<And>a v u. thread_active (inst (sample_world a v u))"
    by (simp add: sample_inst)
  have t1: "thread_tick ?A loop_init = Evaluated [] ?L1"
    by (simp add: thread_tick_evaluated [OF sample_video_now sample_audio_now]
        sample_visible_now sample_inst loop_init_def)
  have t2: "thread_tick ?B ?L1 = Evaluated [] ?L2"
    by (simp add: thread_tick_evaluated [OF sample_video_now sample_audio_now]
        sample_visible_now sample_inst)
  have r2: "thread_loop_from ?L1 [?B] = ([Evaluated [] ?L2], StillRunning ?L2)"
    by (simp only: thread_loop_from_evaluated [OF act t2] thread_loop_from.simps(1)
        fst_conv snd_conv)
  have r: "thread_loop [?A, ?B] = ([Evaluated [] ?L1, Evaluated [] ?L2], StillRunning ?L2)"
    by (simp only: thread_loop_def thread_loop_from_evaluated [OF act t1] r2 fst_conv snd_conv)
  show ?thesis
    using hidden_alert_without_transition [OF h r] h r
    by (simp add: sample_video_now sample_audio_now sample_visible_now sample_inst)
qed

section \<open>The visibility check after a transition\<close>

lemma run_hidden_nth:
  assumes "\<forall>w\<in>set ws. thread_active (inst w) \<and> \<not> visible_now w
             \<and> video_now w \<noteq> None \<and> audio_now w \<noteq> None"
    and "\<not> prev_visible l"
    and "j < length ws"
  shows "\<exists>l'. \<not> prev_visible l' \<and> not_visible_since_ts l' = not_visible_since_ts l
           \<and> fst (thread_loop_from l ws) ! j = thread_tick (ws ! j) l'"
  using assms
proof (induction ws arbitrary: l j)
  case Nil
  then show ?case by simp
next
  case (Cons w ws)
  from Cons.prems(1) obtain t u where o: "video_now w = Some t" "audio_now w = Some u"
    by auto
  from Cons.prems(1) have w: "thread_active (inst w)" "\<not> visible_now w"
    by auto
  obtain a l1 where t: "thread_tick w l = Evaluated a l1"
    by (simp add: thread_tick_evaluated [OF o])
  from t w Cons.prems(2)
  have l1: "\<not> prev_visible l1" "not_visible_since_ts l1 = not_visible_since_ts l"
    by (auto simp: thread_tick_evaluated [OF o])
  have eq: "fst (thread_loop_from l (w # ws)) = Evaluated a l1 # fst (thread_loop_from l1 ws)"
    by (simp only: thread_loop_from_evaluated [OF w(1) t] fst_conv)
  show ?case
  proof (cases j)
    case 0
    with eq t Cons.prems(2) show ?thesis by auto
  next
    case (Suc k)
    with Cons.prems(3) have k: "k < length ws" by simp
    from Cons.prems(1) have "\<forall>w\<in>set ws. thread_active (inst w) \<and> \<not> visible_now w
             \<and> video_now w \<noteq> None \<and> audio_now w \<noteq> None"
      by simp
    from Cons.IH [OF this l1(1) k] obtain l' where
      "\<not> prev_visible l'" "not_visible_since_ts l' = not_visible_since_ts l1"
      "fst (thread_loop_from l1 ws) ! k = thread_tick (ws ! k) l'"
      by blast
    with eq Suc l1(2) show ?thesis by auto
  qed
qed

lemma thread_active_sample: "thread_active (inst (sample_world a v u))"
  by (simp add: sample_inst)

lemma hidden_run_trace:
  "thread_loop hidden_run =
     ([Evaluated [] \<lparr>frame_ts = 1000000000, audio_ts = 1, prev_visible = True,
                     not_visible_since_ts = 0\<rparr>,
       Evaluated [] \<lparr>frame_ts = 2000000000, audio_ts = 2, prev_visible = False,
                     not_visible_since_ts = 2000000000\<rparr>,
       Evaluated [] \<lparr>frame_ts = 7000000000, audio_ts = 3, prev_visible = False,
                     not_visible_since_ts = 2000000000\<rparr>,
       Evaluated [HiddenTooLong] \<lparr>frame_ts = 7000000001, audio_ts = 4, prev_visible = False,
                     not_visible_since_ts = 2000000000\<rparr>],
      StillRunning \<lparr>frame_ts = 7000000001, audio_ts = 4, prev_visible = False,
                     not_visible_since_ts = 2000000000\<rparr>)"
proof -
  let ?L1 = "\<lparr>frame_ts = 1000000000, audio_ts = 1, prev_visible = True,
                     not_visible_since_ts = 0 :: u64\<rparr>"
  let ?L2 = "\<lparr>frame_ts = 2000000000, audio_ts = 2, prev_visible = False,
                     not_visible_since_ts = 2000000000 :: u64\<rparr>"
  let ?L3 = "\<lparr>frame_ts = 7000000000, audio_ts = 3, prev_visible = False,
                     not_visible_since_ts = 2000000000 :: u64\<rparr>"
  let ?L4 = "\<lparr>frame_ts = 7000000001, audio_ts = 4, prev_visible = False,
                     not_visible_since_ts = 2000000000 :: u64\<rparr>"
  note ev = thread_tick_evaluated [OF sample_video_now sample_audio_now]
  have t1: "thread_tick (sample_world True 1000000000 1) loop_init = Evaluated [] ?L1"
    by (simp add: ev sample_visible_now sample_inst loop_init_def)
  have t2: "thread_tick (sample_world False 2000000000 2) ?L1 = Evaluated [] ?L2"
    by (simp add: ev sample_visible_now sample_inst)
  have t3: "thread_tick (sample_world False 7000000000 3) ?L2 = Evaluated [] ?L3"
    by (simp add: ev sample_visible_now sample_inst)
  have t4: "thread_tick (sample_world False 7000000001 4) ?L3 = Evaluated [HiddenTooLong] ?L4"
    by (simp add: ev sample_visible_now sample_inst)
  show ?thesis
    by (simp only: hidden_run_def thread_loop_def
        thread_loop_from_evaluated [OF thread_active_sample t1]
        thread_loop_from_evaluated [OF thread_active_sample t2]
        thread_loop_from_evaluated [OF thread_active_sample t3]
        thread_loop_from_evaluated [OF thread_active_sample t4]
        thread_loop_from.simps(1) fst_conv snd_conv)
qed

text \<open>
  Claim C2, as stated, fails: the source goes from active to inactive at the second
  iteration of \<open>hidden_run\<close>, at video timestamp \<open>t0 = 2000000000\<close>; the threshold is 5
  seconds; the third iteration observes the video timestamp \<open>7000000000\<close>, which is
  \<open>t0 + 5 \<times> 1e9\<close>, and plays no hidden-too-long alert.
\<close>

theorem hidden_too_long_at_threshold_counterexample:
  "visible_now (hidden_run ! 0) \<and> \<not> visible_now (hidden_run ! 1)
   \<and> \<not> visible_now (hidden_run ! 2)
   \<and> video_now (hidden_run ! 1) = Some 2000000000
   \<and> video_now (hidden_run ! 2) = Some 7000000000
   \<and> source_enabled_check (inst (hidden_run ! 2))
   \<and> source_enabled_time (inst (hidden_run ! 2)) = 5
   \<and> (2000000000 :: nat) + 5 * 1000000000 \<le> 7000000000
   \<and> HiddenTooLong \<notin> set (alerts_of (fst (thread_loop hidden_run) ! 2))"
  by (simp add: hidden_run_trace)
    (simp add: hidden_run_def sample_visible_now sample_video_now sample_inst)

text \<open>
  Claim C2, amended. Let the source be active at the previous iteration and inactive at
  an iteration that observes the video timestamp \<open>t0\<close>, and let it stay inactive over
  the following evaluated iterations. The iteration of the transition plays no
  hidden-too-long alert. A following iteration with the check enabled, observing the
  video timestamp \<open>tj\<close>, plays it exactly when \<open>tj - t0\<close>, computed in unsigned 64-bit
  arithmetic, is strictly greater than the threshold in nanoseconds; when \<open>tj\<close> is not
  below \<open>t0\<close>, that is exactly when \<open>tj > t0 + S \<times> 1e9\<close>. So the alert is first played
  at the earliest following iteration whose timestamp exceeds \<open>t0 + S \<times> 1e9\<close>.
\<close>

theorem hidden_too_long_onset:
  assumes "prev_visible l"
    and "\<forall>w\<in>set (w0 # post). thread_active (inst w) \<and> \<not> visible_now w
             \<and> video_now w \<noteq> None \<and> audio_now w \<noteq> None"
    and "video_now w0 = Some t0"
    and "j < length post"
    and "video_now (post ! j) = Some tj"
    and "source_enabled_check (inst (post ! j))"
  shows "HiddenTooLong \<notin> set (alerts_of (fst (thread_loop_from l (w0 # post)) ! 0))
    \<and> (HiddenTooLong \<in> set (alerts_of (fst (thread_loop_from l (w0 # post)) ! Suc j))
         \<longleftrightarrow> 1000000000 * ucast (source_enabled_time (inst (post ! j))) < tj - t0)
    \<and> (t0 \<le> tj \<longrightarrow>
         (HiddenTooLong \<in> set (alerts_of (fst (thread_loop_from l (w0 # post)) ! Suc j))
           \<longleftrightarrow> unat t0 + 1000000000 * unat (source_enabled_time (inst (post ! j))) < unat tj))"
proof -
  from assms(2) obtain u0 where o0: "video_now w0 = Some t0" "audio_now w0 = Some u0"
    using assms(3) by auto
  from assms(2) have w0: "thread_active (inst w0)" "\<not> visible_now w0"
    by auto
  obtain a l1 where t: "thread_tick w0 l = Evaluated a l1"
    by (simp add: thread_tick_evaluated [OF o0])
  from t w0 assms(1)
  have l1: "\<not> prev_visible l1" "not_visible_since_ts l1 = t0" and a: "HiddenTooLong \<notin> set a"
    by (auto simp: thread_tick_evaluated [OF o0])
  have eq: "fst (thread_loop_from l (w0 # post)) = Evaluated a l1 # fst (thread_loop_from l1 post)"
    by (simp only: thread_loop_from_evaluated [OF w0(1) t] fst_conv)
  from assms(2) have post: "\<forall>w\<in>set post. thread_active (inst w) \<and> \<not> visible_now w
             \<and> video_now w \<noteq> None \<and> audio_now w \<noteq> None"
    by simp
  from run_hidden_nth [OF post l1(1) assms(4)] l1(2) obtain l' where
    l': "\<not> prev_visible l'" "not_visible_since_ts l' = t0"
      "fst (thread_loop_from l1 post) ! j = thread_tick (post ! j) l'"
    by auto
  from post assms(4) have pj: "\<not> visible_now (post ! j)" "audio_now (post ! j) \<noteq> None"
    by auto
  then obtain uj where oj: "video_now (post ! j) = Some tj" "audio_now (post ! j) = Some uj"
    using assms(5) by auto
  have fire: "HiddenTooLong \<in> set (alerts_of (fst (thread_loop_from l (w0 # post)) ! Suc j))
         \<longleftrightarrow> 1000000000 * ucast (source_enabled_time (inst (post ! j))) < tj - t0"
    using l' pj(1) assms(6)
    by (simp add: eq thread_tick_evaluated [OF oj] del: thread_loop_from.simps)
  from a have first: "HiddenTooLong \<notin> set (alerts_of (fst (thread_loop_from l (w0 # post)) ! 0))"
    by (simp add: eq del: thread_loop_from.simps)
  show ?thesis
    using first fire exceeds_unat [of t0 tj "source_enabled_time (inst (post ! j))"]
    by (simp del: thread_loop_from.simps)
qed

theorem hidden_too_long_onset_witness:
  "prev_visible \<lparr>frame_ts = 1000000000, audio_ts = 1, prev_visible = True,
                     not_visible_since_ts = 0\<rparr>
   \<and> list_all (\<lambda>w. thread_active (inst w) \<and> \<not> visible_now w
                    \<and> video_now w \<noteq> None \<and> audio_now w \<noteq> None)
        (sample_world False 2000000000 2
          # [sample_world False 7000000000 3, sample_world False 7000000001 4])
   \<and> video_now (sample_world False 2000000000 2) = Some 2000000000
   \<and> video_now ([sample_world False 7000000000 3, sample_world False 7000000001 4] ! 1)
       = Some 7000000001
   \<and> source_enabled_check
        (inst ([sample_world False 7000000000 3, sample_world False 7000000001 4] ! 1))
   \<and> (2000000000 :: u64) \<le> 7000000001
   \<and> HiddenTooLong \<in> set (alerts_of (fst (thread_loop_from
        \<lparr>frame_ts = 1000000000, audio_ts = 1, prev_visible = True,
                     not_visible_since_ts = 0\<rparr>
        (sample_world False 2000000000 2
          # [sample_world False 7000000000 3, sample_world False 7000000001 4])) ! Suc 1))"
  using hidden_too_long_onset [of
      "\<lparr>frame_ts = 1000000000, audio_ts = 1, prev_visible = True,
                     not_visible_since_ts = 0\<rparr>"
      "sample_world False 2000000000 2"
      "[sample_world False 7000000000 3, sample_world False 7000000001 4]"
      2000000000 1 7000000001]
  by (simp add: sample_visible_now sample_video_now sample_audio_now sample_inst
      del: thread_loop_from.simps)

section \<open>Starting and stopping the watchdog\<close>

lemma start_thread_inv:
  assumes "lifecycle_inv w"
  shows "\<exists>w'. start_thread w = Inr w' \<and> lifecycle_inv w'"
  using assms by (auto simp: start_thread_def lifecycle_inv_def Let_def)

lemma end_thread_inv:
  assumes "lifecycle_inv w"
  shows "\<exists>w'. end_thread w = Inr w' \<and> lifecycle_inv w'"
  using assms by (auto simp: end_thread_def lifecycle_inv_def Let_def)

lemma lifecycle_inv_host: "lifecycle_inv (w\<lparr>host := h\<rparr>) = lifecycle_inv w"
  by (simp add: lifecycle_inv_def)

lemma apply_lifecycle_inv:
  assumes "lifecycle_inv w"
  shows "\<exists>w'. apply_lifecycle w x = Inr w' \<and> lifecycle_inv w'"
proof (cases x)
  case (Pair h op)
  then show ?thesis
    using assms start_thread_inv [of "w\<lparr>host := h\<rparr>"] end_thread_inv [of "w\<lparr>host := h\<rparr>"]
    by (cases op) (simp_all add: lifecycle_inv_host)
qed

lemma run_lifecycle_inv:
  assumes "lifecycle_inv w"
  shows "\<exists>w'. run_lifecycle w ops = Inr w' \<and> lifecycle_inv w'"
  using assms
proof (induction ops arbitrary: w)
  case Nil
  then show ?case by simp
next
  case (Cons x xs)
  from apply_lifecycle_inv [OF Cons.prems, of x] obtain w1 where
    w1: "apply_lifecycle w x = Inr w1" "lifecycle_inv w1" by blast
  from Cons.IH [OF w1(2)] w1(1) show ?case by simp
qed

lemma filter_create_inv:
  assumes "inst w = filter_create sp s ctx sh" and "tasks w = 0"
  shows "lifecycle_inv w"
  using assms
  by (simp add: lifecycle_inv_def filter_create_def filter_update_def bzalloc_def Let_def)

text \<open>
  Claim C5. Start from a freshly created instance with no task and run any sequence of
  start and stop calls, under any host states. No call faults, and afterwards at most one
  task runs the loop: exactly one when \<open>thread_active\<close> is set and none otherwise. In a
  state with a running task \<^verbatim>\<open>start_thread\<close> changes nothing, and in a state without
  one \<^verbatim>\<open>end_thread\<close> changes nothing.
\<close>

theorem one_watchdog_task:
  assumes "inst w0 = filter_create sp s ctx sh" and "tasks w0 = 0"
  shows "\<exists>w. run_lifecycle w0 ops = Inr w
           \<and> tasks w \<le> 1
           \<and> (tasks w = 1 \<longleftrightarrow> thread_active (inst w))
           \<and> (thread_active (inst w) \<longrightarrow> start_thread w = Inr w)
           \<and> (\<not> thread_active (inst w) \<longrightarrow> end_thread w = Inr w)"
proof -
  from run_lifecycle_inv [OF filter_create_inv [OF assms], of ops] obtain w where
    w: "run_lifecycle w0 ops = Inr w" "lifecycle_inv w" by blast
  from w(2) have "tasks w \<le> 1" "tasks w = 1 \<longleftrightarrow> thread_active (inst w)"
    by (simp_all add: lifecycle_inv_def)
  moreover have "thread_active (inst w) \<longrightarrow> start_thread w = Inr w"
    by (simp add: start_thread_def)
  moreover have "\<not> thread_active (inst w) \<longrightarrow> end_thread w = Inr w"
    by (simp add: end_thread_def)
  ultimately show ?thesis using w(1) by blast
qed

lemmas run_defs = start_thread_def end_thread_def sample_defs Let_def

theorem one_watchdog_task_witness:
  "inst (created_world True 1000 0) = filter_create None filter_defaults (Some 0) None
   \<and> tasks (created_world True 1000 0) = 0
   \<and> tasks (projr (run_lifecycle (created_world True 1000 0)
        [(sample_host True, Start), (sample_host True, Start)])) = 1
   \<and> thread_active (inst (projr (run_lifecycle (created_world True 1000 0)
        [(sample_host True, Start), (sample_host True, Start)])))
   \<and> tasks (projr (run_lifecycle (created_world True 1000 0)
        [(sample_host True, Start), (sample_host True, Start),
         (sample_host True, Stop), (sample_host True, Stop)])) = 0
   \<and> (\<exists>w. run_lifecycle (created_world True 1000 0)
        [(sample_host True, Start), (sample_host True, Start),
         (sample_host True, Stop), (sample_host True, Stop)] = Inr w
        \<and> tasks w \<le> 1 \<and> \<not> thread_active (inst w) \<and> end_thread w = Inr w)"
proof -
  have i: "inst (created_world True 1000 0) = filter_create None filter_defaults (Some 0) None"
    by (simp add: created_world_def)
  have t: "tasks (created_world True 1000 0) = 0"
    by (simp add: created_world_def)
  have r2: "tasks (projr (run_lifecycle (created_world True 1000 0)
        [(sample_host True, Start), (sample_host True, Start)])) = 1
   \<and> thread_active (inst (projr (run_lifecycle (created_world True 1000 0)
        [(sample_host True, Start), (sample_host True, Start)])))"
    by (simp add: run_defs)
  have r4: "tasks (projr (run_lifecycle (created_world True 1000 0)
        [(sample_host True, Start), (sample_host True, Start),
         (sample_host True, Stop), (sample_host True, Stop)])) = 0"
    by (simp add: run_defs)
  from one_watchdog_task [OF i t, of "[(sample_host True, Start), (sample_host True, Start),
         (sample_host True, Stop), (sample_host True, Stop)]"] r4
  have "\<exists>w. run_lifecycle (created_world True 1000 0)
        [(sample_host True, Start), (sample_host True, Start),
         (sample_host True, Stop), (sample_host True, Stop)] = Inr w
        \<and> tasks w \<le> 1 \<and> \<not> thread_active (inst w) \<and> end_thread w = Inr w"
    by auto
  with i t r2 r4 show ?thesis by blast
qed

section \<open>Stopping the watchdog\<close>






section \<open>An iteration without an audio sample\<close>

lemma video_only_world_eq:
  "video_only_world =
     \<lparr>inst = \<lparr>context_src = Some 0, source = Some 1, settings = None,
              current_frame = Some 10, current_audio = None, video_ts_check = True,
              audio_ts_check = True, source_enabled_check = True, source_enabled_time = 5,
              thread = True, thread_active = True, signal_handler = None\<rparr>,
      frames = [10 \<mapsto> \<lparr>frame_timestamp = 1000, frame_payload = []\<rparr>],
      audios = [20 \<mapsto> \<lparr>audio_timestamp = 0, audio_payload = []\<rparr>],
      host = sample_host True, tasks = 1\<rparr>"
  by (simp add: video_only_world_def filter_video_def run_defs)

text \<open>
  Claim C1 does not hold of the code. After \<^verbatim>\<open>filter_create\<close> and one video frame,
  with no audio sample ever recorded, \<open>current_audio\<close> is still the null pointer of the
  zeroed allocation. The iteration passes the guard on \<open>current_frame\<close>, the only guard
  there is, and reads the audio timestamp through the null pointer: it faults instead of
  being skipped.
\<close>

theorem watchdog_faults_without_audio:
  "filter_video (created_world True 1000 0) (Some 10) = Inr (Some 10, video_only_world)
   \<and> thread_active (inst video_only_world)
   \<and> video_now video_only_world = Some 1000
   \<and> current_audio (inst video_only_world) = None
   \<and> thread_tick video_only_world loop_init = Faulted []
   \<and> thread_loop [video_only_world] = ([Faulted []], Crashed)"
proof -
  have f: "filter_video (created_world True 1000 0) (Some 10) = Inr (Some 10, video_only_world)"
    by (simp add: video_only_world_eq) (simp add: filter_video_def run_defs)
  have t: "thread_tick video_only_world loop_init = Faulted []"
    by (simp add: video_only_world_eq thread_tick_def video_check_def audio_check_def
        deref_frame_def deref_audio_def loop_init_def)
  have a: "thread_active (inst video_only_world)"
    by (simp add: video_only_world_eq)
  have "thread_loop [video_only_world] = ([Faulted []], Crashed)"
    by (simp add: thread_loop_def t a)
  moreover have "video_now video_only_world = Some 1000"
    by (simp add: video_only_world_eq video_now_def deref_frame_def)
  moreover have "current_audio (inst video_only_world) = None"
    by (simp add: video_only_world_eq)
  ultimately show ?thesis using f t a by blast
qed

section \<open>The producer callbacks\<close>

text \<open>
  Claim C10, as stated, fails: \<^verbatim>\<open>filter_video\<close> on a freshly created instance of an
  enabled and active source does more than store the frame pointer. It also sets
  \<open>source\<close> to the parent and starts the watchdog.
\<close>

theorem filter_video_starts_watchdog_counterexample:
  "filter_video (created_world True 1000 0) (Some 10) = Inr (Some 10, video_only_world)
   \<and> video_only_world
       \<noteq> (created_world True 1000 0)
           \<lparr>inst := (inst (created_world True 1000 0))\<lparr>current_frame := Some 10\<rparr>\<rparr>
   \<and> source (inst video_only_world) \<noteq> source (inst (created_world True 1000 0))
   \<and> thread_active (inst video_only_world)
       \<noteq> thread_active (inst (created_world True 1000 0))
   \<and> tasks video_only_world \<noteq> tasks (created_world True 1000 0)"
proof -
  have f: "filter_video (created_world True 1000 0) (Some 10) = Inr (Some 10, video_only_world)"
    by (simp add: video_only_world_eq) (simp add: filter_video_def run_defs)
  have t: "tasks video_only_world \<noteq> tasks (created_world True 1000 0)"
    by (simp add: video_only_world_eq created_world_def)
  have "video_only_world
       \<noteq> (created_world True 1000 0)
           \<lparr>inst := (inst (created_world True 1000 0))\<lparr>current_frame := Some 10\<rparr>\<rparr>"
  proof
    assume "video_only_world
       = (created_world True 1000 0)
           \<lparr>inst := (inst (created_world True 1000 0))\<lparr>current_frame := Some 10\<rparr>\<rparr>"
    then have "tasks video_only_world
       = tasks ((created_world True 1000 0)
           \<lparr>inst := (inst (created_world True 1000 0))\<lparr>current_frame := Some 10\<rparr>\<rparr>)"
      by (rule arg_cong)
    with t show False by simp
  qed
  moreover have "source (inst video_only_world) \<noteq> source (inst (created_world True 1000 0))"
    by (simp add: video_only_world_eq sample_defs Let_def)
  moreover have "thread_active (inst video_only_world)
       \<noteq> thread_active (inst (created_world True 1000 0))"
    by (simp add: video_only_world_eq sample_defs Let_def)
  ultimately show ?thesis using f t by blast
qed

lemma start_thread_Inr:
  assumes "thread (inst w) = thread_active (inst w)"
  shows "start_thread w =
     Inr (if thread_active (inst w) \<or> \<not> obs_source_enabled (host w) (context_src (inst w))
          then w
          else w\<lparr>inst := (inst w)\<lparr>thread_active := True, thread := True\<rparr>,
                 tasks := Suc (tasks w)\<rparr>)"
  using assms by (simp add: start_thread_def Let_def)

text \<open>
  Claim C10, amended. Given a valid frame, a stored frame pointer that is null or valid,
  and a \<^verbatim>\<open>std::thread\<close> member that is joinable exactly when \<open>thread_active\<close> is set,
  \<^verbatim>\<open>filter_video\<close> returns the pointer it was given and leaves the stores of frames and
  audio samples and the host as they are. In the instance it changes at most these
  members: \<open>source\<close> becomes the parent when it was null; the watchdog is started
  (\<open>thread_active\<close>, \<open>thread\<close>, one more task) when it was not running and the context is
  enabled and the source active; \<open>current_frame\<close> becomes the given pointer when it was
  null or when the two timestamps differ, and stays as it is when they are equal.
  \<^verbatim>\<open>filter_audio\<close> returns the pointer it was given and changes \<open>current_audio\<close> only.
\<close>

theorem producer_callbacks_pass_through:
  assumes "deref_frame w frame \<noteq> None"
    and "current_frame (inst w) = None \<or> video_now w \<noteq> None"
    and "thread (inst w) = thread_active (inst w)"
  shows "filter_video w frame =
      Inr (frame,
        w\<lparr>inst := (inst w)
            \<lparr>source :=
               (if source (inst w) = None
                then obs_filter_get_parent (host w) (context_src (inst w))
                else source (inst w)),
             thread_active :=
               (thread_active (inst w)
                \<or> obs_source_enabled (host w) (context_src (inst w))
                  \<and> obs_source_active (host w)
                      (if source (inst w) = None
                       then obs_filter_get_parent (host w) (context_src (inst w))
                       else source (inst w))),
             thread :=
               (thread_active (inst w)
                \<or> obs_source_enabled (host w) (context_src (inst w))
                  \<and> obs_source_active (host w)
                      (if source (inst w) = None
                       then obs_filter_get_parent (host w) (context_src (inst w))
                       else source (inst w))),
             current_frame :=
               (if current_frame (inst w) = None
                   \<or> map_option frame_timestamp (deref_frame w frame) \<noteq> video_now w
                then frame else current_frame (inst w))\<rparr>,
          tasks :=
            (if \<not> thread_active (inst w)
                \<and> obs_source_enabled (host w) (context_src (inst w))
                \<and> obs_source_active (host w)
                    (if source (inst w) = None
                     then obs_filter_get_parent (host w) (context_src (inst w))
                     else source (inst w))
             then Suc (tasks w) else tasks w)\<rparr>)
    \<and> filter_audio w audio = (audio, w\<lparr>inst := (inst w)\<lparr>current_audio := audio\<rparr>\<rparr>)"
proof -
  define src where "src = (if source (inst w) = None
                then obs_filter_get_parent (host w) (context_src (inst w))
                else source (inst w))"
  define w1 where "w1 = w\<lparr>inst := (inst w)\<lparr>source := src\<rparr>\<rparr>"
  define start where "start \<longleftrightarrow> \<not> thread_active (inst w)
      \<and> obs_source_enabled (host w) (context_src (inst w)) \<and> obs_source_active (host w) src"
  define w2 where "w2 = (if start
      then w1\<lparr>inst := (inst w1)\<lparr>thread_active := True, thread := True\<rparr>,
               tasks := Suc (tasks w1)\<rparr>
      else w1)"
  from assms(1) obtain fr where fr: "deref_frame w frame = Some fr" by auto
  have w1: "(if source (inst w) = None
                then w\<lparr>inst := (inst w)\<lparr>source :=
                       obs_filter_get_parent (host w) (context_src (inst w))\<rparr>\<rparr>
                else w) = w1"
    by (simp add: w1_def src_def)
  have inv1: "thread (inst w1) = thread_active (inst w1)"
    using assms(3) by (simp add: w1_def)
  have st: "(if \<not> thread_active (inst w1)
                  \<and> obs_source_enabled (host w1) (context_src (inst w1))
                  \<and> obs_source_active (host w1) (source (inst w1))
               then start_thread w1 else Inr w1) = Inr w2"
  proof -
    have f1: "thread_active (inst w1) = thread_active (inst w)" "host w1 = host w"
      "context_src (inst w1) = context_src (inst w)" "source (inst w1) = src"
      by (simp_all add: w1_def)
    show ?thesis
      by (cases start) (auto simp: start_thread_Inr [OF inv1] f1 w2_def start_def)
  qed
  have d2: "deref_frame w2 p = deref_frame w p" for p
    by (cases p) (simp_all add: deref_frame_def w2_def w1_def)
  have c2: "current_frame (inst w2) = current_frame (inst w)"
    by (simp add: w2_def w1_def)
  have fv: "filter_video w frame =
      Inr (frame, w2\<lparr>inst := (inst w2)\<lparr>current_frame :=
               (if current_frame (inst w) = None
                   \<or> map_option frame_timestamp (deref_frame w frame) \<noteq> video_now w
                then frame else current_frame (inst w))\<rparr>\<rparr>)"
  proof (cases "current_frame (inst w) = None")
    case True
    then show ?thesis
      by (simp add: filter_video_def Let_def w1 st c2)
  next
    case False
    with assms(2) obtain cur where
      cur: "deref_frame w (current_frame (inst w)) = Some cur"
      by (auto simp: video_now_def)
    have same: "w2\<lparr>inst := (inst w2)\<lparr>current_frame := current_frame (inst w)\<rparr>\<rparr> = w2"
      using c2 by simp
    from False show ?thesis
      by (auto simp: filter_video_def Let_def w1 st c2 d2 fr cur video_now_def same)
  qed
  have "w2\<lparr>inst := (inst w2)\<lparr>current_frame := cf\<rparr>\<rparr>
      = w\<lparr>inst := (inst w)
            \<lparr>source := src,
             thread_active := (thread_active (inst w)
                \<or> obs_source_enabled (host w) (context_src (inst w))
                  \<and> obs_source_active (host w) src),
             thread := (thread_active (inst w)
                \<or> obs_source_enabled (host w) (context_src (inst w))
                  \<and> obs_source_active (host w) src),
             current_frame := cf\<rparr>,
          tasks := (if start then Suc (tasks w) else tasks w)\<rparr>" for cf
    using assms(3) by (cases start) (auto simp: w2_def w1_def start_def)
  with fv show ?thesis
    by (simp add: filter_audio_def src_def [symmetric] start_def [symmetric])
qed

theorem producer_callbacks_pass_through_witness:
  "deref_frame two_frame_world (Some 11) \<noteq> None
   \<and> video_now two_frame_world \<noteq> None
   \<and> thread (inst two_frame_world) = thread_active (inst two_frame_world)
   \<and> current_frame (inst two_frame_world) = Some 10
   \<and> filter_video two_frame_world (Some 11) = Inr (Some 11, two_frame_world)
   \<and> filter_audio two_frame_world (Some 21)
       = (Some 21, two_frame_world\<lparr>inst := (inst two_frame_world)\<lparr>current_audio := Some 21\<rparr>\<rparr>)"
proof -
  have h1: "deref_frame two_frame_world (Some 11) \<noteq> None"
    by (simp add: two_frame_world_def deref_frame_def)
  have v: "video_now two_frame_world = Some 5"
    by (simp add: two_frame_world_def video_now_def deref_frame_def sample_defs Let_def)
  then have h2: "current_frame (inst two_frame_world) = None \<or> video_now two_frame_world \<noteq> None"
    by simp
  have h3: "thread (inst two_frame_world) = thread_active (inst two_frame_world)"
    by (simp add: two_frame_world_def sample_defs Let_def)
  have c: "current_frame (inst two_frame_world) = Some 10"
    by (simp add: two_frame_world_def sample_defs Let_def)
  have d: "map_option frame_timestamp (deref_frame two_frame_world (Some 11)) = Some 5"
    by (simp add: two_frame_world_def deref_frame_def)
  have i: "inst two_frame_world = \<lparr>context_src = Some 0, source = Some 1, settings = None,
     current_frame = Some 10, current_audio = Some 20, video_ts_check = True,
     audio_ts_check = True, source_enabled_check = True, source_enabled_time = 5,
     thread = True, thread_active = True, signal_handler = None\<rparr>"
    by (simp add: two_frame_world_def sample_inst)
  have t: "tasks two_frame_world = 1"
    by (simp add: two_frame_world_def sample_defs)
  have same: "two_frame_world\<lparr>inst := \<lparr>context_src = Some 0, source = Some 1, settings = None,
     current_frame = Some 10, current_audio = Some 20, video_ts_check = True,
     audio_ts_check = True, source_enabled_check = True, source_enabled_time = 5,
     thread = True, thread_active = True, signal_handler = None\<rparr>, tasks := Suc 0\<rparr>
     = two_frame_world"
    using i t by (metis One_nat_def world.surjective world.update_convs(1) world.update_convs(5))
  from producer_callbacks_pass_through [OF h1 h2 h3, of "Some 21"]
  have "filter_video two_frame_world (Some 11) = Inr (Some 11, two_frame_world)
     \<and> filter_audio two_frame_world (Some 21)
       = (Some 21, two_frame_world\<lparr>inst := (inst two_frame_world)\<lparr>current_audio := Some 21\<rparr>\<rparr>)"
    by (simp add: v d) (simp add: i t same)
  with h1 v h3 c show ?thesis by simp
qed

end
